theory Spec2Isabelle
  imports Main
begin

section \<open>Values exchanged with the service\<close>

text \<open>
  The records returned by the service client are Python values built from dictionaries,
  lists and scalars. A dictionary is kept as an association list in insertion order;
  a well-formed dictionary has no key twice (\<open>wf_value\<close> below).
\<close>

datatype pyvalue =
    PNone
  | PBool bool
  | PInt int
  | PStr string
  | PList "pyvalue list"
  | PDict "(string \<times> pyvalue) list"

type_synonym pydict = "(string \<times> pyvalue) list"

text \<open>\<open>d[k] = v\<close>: an existing key keeps its position and takes the new value, a new key
  is added at the end.\<close>

fun dict_set :: "pydict \<Rightarrow> string \<Rightarrow> pyvalue \<Rightarrow> pydict" where
  "dict_set [] k v = [(k, v)]"
| "dict_set ((k', v') # d) k v =
     (if k' = k then (k, v) # d else (k', v') # dict_set d k v)"

fun wf_value :: "pyvalue \<Rightarrow> bool"
  and wf_items :: "pydict \<Rightarrow> bool"
  and wf_values :: "pyvalue list \<Rightarrow> bool" where
  "wf_value (PDict d) = (distinct (map fst d) \<and> wf_items d)"
| "wf_value (PList xs) = wf_values xs"
| "wf_value PNone = True"
| "wf_value (PBool b) = True"
| "wf_value (PInt i) = True"
| "wf_value (PStr s) = True"
| "wf_items [] = True"
| "wf_items ((k, v) # d) = (wf_value v \<and> wf_items d)"
| "wf_values [] = True"
| "wf_values (x # xs) = (wf_value x \<and> wf_values xs)"

section \<open>The key renaming helper\<close>

text \<open>
  Character classes of the regular expressions: \<open>[A-Z]\<close>, \<open>[a-z]\<close>, \<open>[0-9]\<close>, and the
  lower-casing of an ASCII letter. Strings are ASCII.
\<close>

definition is_upper :: "char \<Rightarrow> bool" where
  "is_upper c = (65 \<le> (of_char c :: nat) \<and> (of_char c :: nat) \<le> 90)"

definition is_lower :: "char \<Rightarrow> bool" where
  "is_lower c = (97 \<le> (of_char c :: nat) \<and> (of_char c :: nat) \<le> 122)"

definition is_digit :: "char \<Rightarrow> bool" where
  "is_digit c = (48 \<le> (of_char c :: nat) \<and> (of_char c :: nat) \<le> 57)"

definition lower_char :: "char \<Rightarrow> char" where
  "lower_char c = (if is_upper c then char_of ((of_char c :: nat) + 32) else c)"

definition lower :: "string \<Rightarrow> string" where
  "lower s = map lower_char s"

definition newline :: char where
  "newline = CHR 0x0A"

text \<open>
  Modelled from the spec: \<open>camel_dict_to_snake_dict\<close> is imported from the
  \<open>amazon.aws\<close> collection and its body, with the private \<open>_camel_to_snake\<close> it calls, is
  not among the source files. Section 4.2 of the specification gives the contract: every key is
  renamed from the wire's camel convention to snake_case, recursively through nested mappings
  and sequences of mappings, and nothing else changes. The renaming of one key is the helper's
  three substitutions followed by lower-casing. The first one, \<open>sub_upper_pattern\<close>: the
  leftmost match of \<open>[A-Z]{3,}s$\<close>, a plural abbreviation such as \<open>ARNs\<close> at the end of the
  name, becomes an underscore and the match in lower case.
\<close>

fun sub_upper_pattern :: "string \<Rightarrow> string" where
  "sub_upper_pattern [] = []"
| "sub_upper_pattern (c # cs) =
     (let us = takeWhile is_upper (c # cs); rest = dropWhile is_upper (c # cs)
      in if 3 \<le> length us \<and> (rest = ''s'' \<or> rest = [CHR ''s'', newline])
         then CHR ''_'' # lower us @ rest
         else c # sub_upper_pattern cs)"

text \<open>Modelled from the spec: the second substitution of the absent \<open>_camel_to_snake\<close>.
  Every match of \<open>(.)([A-Z][a-z]+)\<close>, taken from left to right without overlap, gets an
  underscore between its two groups; the dot matches any character but a newline.\<close>

function sub_first_cap :: "string \<Rightarrow> string" where
  "sub_first_cap (c # u # l # cs) =
     (if c \<noteq> newline \<and> is_upper u \<and> is_lower l
      then c # CHR ''_'' # u # l # takeWhile is_lower cs @ sub_first_cap (dropWhile is_lower cs)
      else c # sub_first_cap (u # l # cs))"
| "sub_first_cap [c, u] = [c, u]"
| "sub_first_cap [c] = [c]"
| "sub_first_cap [] = []"
  by pat_completeness auto
termination
  by (relation "measure length") (auto simp: length_dropWhile_le less_Suc_eq_le le_SucI)

text \<open>Modelled from the spec: the third substitution of the absent \<open>_camel_to_snake\<close>.
  Every match of \<open>([a-z0-9])([A-Z]+)\<close> gets an underscore between its two groups.\<close>

function sub_all_cap :: "string \<Rightarrow> string" where
  "sub_all_cap (c # u # cs) =
     (if (is_lower c \<or> is_digit c) \<and> is_upper u
      then c # CHR ''_'' # u # takeWhile is_upper cs @ sub_all_cap (dropWhile is_upper cs)
      else c # sub_all_cap (u # cs))"
| "sub_all_cap [c] = [c]"
| "sub_all_cap [] = []"
  by pat_completeness auto
termination
  by (relation "measure length") (auto simp: length_dropWhile_le less_Suc_eq_le le_SucI)

text \<open>Modelled from the spec: the absent \<open>_camel_to_snake\<close>, the snake_case renaming of one
  key (section 4.2). An underscore that the first substitution puts in front of a name that
  did not start with one is dropped; the result is put in lower case.\<close>

definition camel_to_snake :: "string \<Rightarrow> string" where
  "camel_to_snake name =
     (let s0 = sub_upper_pattern name;
          s1 = (if s0 \<noteq> [] \<and> hd s0 = CHR ''_'' \<and> \<not> (name \<noteq> [] \<and> hd name = CHR ''_'')
                then tl s0 else s0);
          s2 = sub_first_cap s1
      in lower (sub_all_cap s2))"

text \<open>
  Modelled from the spec: the body of the absent \<open>camel_dict_to_snake_dict\<close> (section 4.2:
  recursively through nested mappings and sequences of mappings). \<open>snake_items\<close> is the loop
  over \<open>camel_dict.items()\<close> that fills \<open>snake_dict\<close>; \<open>value_is_list\<close> is the inner helper
  of that name; a value that is neither a dictionary nor a list is stored as it is.
\<close>

fun snake_value :: "pyvalue \<Rightarrow> pyvalue"
  and snake_items :: "pydict \<Rightarrow> pydict \<Rightarrow> pydict"
  and value_is_list :: "pyvalue list \<Rightarrow> pyvalue list" where
  "snake_value (PDict d) = PDict (snake_items d [])"
| "snake_value (PList xs) = PList (value_is_list xs)"
| "snake_value PNone = PNone"
| "snake_value (PBool b) = PBool b"
| "snake_value (PInt i) = PInt i"
| "snake_value (PStr s) = PStr s"
| "snake_items [] snake_dict = snake_dict"
| "snake_items ((k, v) # d) snake_dict =
     snake_items d (dict_set snake_dict (camel_to_snake k) (snake_value v))"
| "value_is_list [] = []"
| "value_is_list (item # camel_list) = snake_value item # value_is_list camel_list"

datatype service_error =
    ClientError bool string
  | BotoCoreError string

datatype py_exception =
    ServiceError service_error
  | KeyError string
  | TypeError
  | AttributeError

text \<open>Modelled from the spec: the entry point of the absent \<open>camel_dict_to_snake_dict\<close>. It
  takes a dictionary; on any other value the call of \<open>.items()\<close> raises
  \<open>AttributeError\<close>.\<close>

fun camel_dict_to_snake_dict :: "pyvalue \<Rightarrow> py_exception + pyvalue" where
  "camel_dict_to_snake_dict (PDict d) = Inr (PDict (snake_items d []))"
| "camel_dict_to_snake_dict v = Inl AttributeError"

section \<open>Module parameters and their validation\<close>

text \<open>
  \<open>argument_spec\<close> of \<open>main\<close>: five optional parameters. \<open>None\<close> is a parameter the caller
  did not supply, which is also what \<open>module.params\<close> holds for it afterwards.
\<close>

record params =
  name :: "string option"
  list_databases :: "bool option"
  database_name :: "string option"
  list_database_tables :: "bool option"
  list_work_groups :: "bool option"

text \<open>The parameters as the dictionary the rule tables are checked against.\<close>

definition get_param :: "params \<Rightarrow> string \<Rightarrow> pyvalue option" where
  "get_param p k =
     (if k = ''name'' then map_option PStr (name p)
      else if k = ''list_databases'' then map_option PBool (list_databases p)
      else if k = ''database_name'' then map_option PStr (database_name p)
      else if k = ''list_database_tables'' then map_option PBool (list_database_tables p)
      else if k = ''list_work_groups'' then map_option PBool (list_work_groups p)
      else None)"

text \<open>The two rule tables that \<open>main\<close> hands to the module constructor.\<close>

definition required_if :: "(string \<times> pyvalue \<times> string list) list" where
  "required_if =
     [(''list_databases'', PBool True, [''name'']),
      (''list_database_tables'', PBool True, [''name'', ''database_name''])]"

definition mutually_exclusive :: "string list list" where
  "mutually_exclusive =
     [[''list_databases'', ''list_database_tables'', ''list_work_groups''],
      [''name'', ''list_work_groups''],
      [''database_name'', ''list_work_groups'']]"

datatype validation_error =
    Mutually_exclusive "string list list"
  | Required_if string "string list"

text \<open>
  Modelled from the spec: the constructor \<open>AnsibleAWSModule\<close> that evaluates the two tables
  belongs to the \<open>amazon.aws\<close> collection and is not among the source files. Sections 4.1 and
  7 of the specification: a validation error is reported immediately, before any network
  call, naming the offending fields; the options of a mutually exclusive group are
  incompatible with one another, so a group is violated when more than one of them is
  supplied; a rule \<open>(key, value, names)\<close> requires every one of \<open>names\<close> to be present when
  the option \<open>key\<close> has the value. Mutual exclusion is checked first. \<open>count_terms\<close> counts
  the options of a group that were supplied.
\<close>

definition count_terms :: "string list \<Rightarrow> params \<Rightarrow> nat" where
  "count_terms terms p = length (filter (\<lambda>k. get_param p k \<noteq> None) (remdups terms))"

text \<open>Modelled from the spec: the groups of the absent constructor's mutual exclusion check
  that are violated, those with more than one option supplied.\<close>

definition check_mutually_exclusive :: "string list list \<Rightarrow> params \<Rightarrow> string list list" where
  "check_mutually_exclusive terms p = filter (\<lambda>check. 1 < count_terms check p) terms"

text \<open>Modelled from the spec: the rules of the absent constructor's \<open>required_if\<close> check that
  are violated, each with the required options that are missing.\<close>

fun check_required_if ::
  "(string \<times> pyvalue \<times> string list) list \<Rightarrow> params \<Rightarrow> (string \<times> string list) list" where
  "check_required_if [] p = []"
| "check_required_if ((key, val, requirements) # reqs) p =
     (let missing = (if get_param p key = Some val
                     then filter (\<lambda>check. count_terms [check] p = 0) requirements
                     else [])
      in (if missing \<noteq> [] then [(key, missing)] else []) @ check_required_if reqs p)"

text \<open>Modelled from the spec: the absent constructor \<open>AnsibleAWSModule\<close>. It fails with the
  violated groups, or else with the first violated rule, or else yields the module with its
  parameters.\<close>

definition AnsibleAWSModule ::
  "(string \<times> pyvalue \<times> string list) list \<Rightarrow> string list list \<Rightarrow> params
     \<Rightarrow> validation_error + params" where
  "AnsibleAWSModule req_if mut_ex p =
     (case check_mutually_exclusive mut_ex p of
        c # cs \<Rightarrow> Inl (Mutually_exclusive (c # cs))
      | [] \<Rightarrow>
          (case check_required_if req_if p of
             (key, missing) # ms \<Rightarrow> Inl (Required_if key missing)
           | [] \<Rightarrow> Inr p))"

text \<open>The truth value of \<open>module.params[flag]\<close> in an \<open>if\<close>: unset and \<open>False\<close> are both false.\<close>

definition truthy :: "bool option \<Rightarrow> bool" where
  "truthy b = (b = Some True)"

section \<open>The service client\<close>

record request =
  operation :: string
  kwargs :: "(string \<times> string option) list"

type_synonym reply = "service_error + pydict"

text \<open>
  Modelled from the spec: the client object comes from the SDK, outside the source files.
  What the module observes of it (sections 4.1, 5 and 7 of the specification): whether an
  operation can be paginated; for a paginated request the outcomes of the successive page
  fetches, pulled one after the other while the caller iterates, each one a page or a service
  error; for a direct call its single outcome. Building a paginator and its page iterator
  sends nothing.
\<close>

record athena_client =
  can_paginate :: "string \<Rightarrow> bool"
  page_replies :: "request \<Rightarrow> reply list"
  call_reply :: "request \<Rightarrow> reply"

text \<open>What \<open>_athena\<close> hands back: a page iterator that has not fetched anything yet, or the
  response of a direct call.\<close>

datatype athena_result =
    Iterator request
  | Response pydict

text \<open>How a run of the module ends.\<close>

datatype outcome =
    Exit_json string "pyvalue list"
  | Fail_json validation_error
  | Fail_json_aws service_error string
  | Uncaught py_exception

text \<open>A call either returns, raises, or leaves the process through \<open>fail_json_aws\<close>.\<close>

datatype 'a completion =
    Returned 'a
  | Raised py_exception
  | SystemExit outcome

text \<open>Every function that can reach the network threads the list of requests sent so far.\<close>

type_synonym calls = "request list"

section \<open>\<open>_athena\<close>\<close>

text \<open>The body of the \<open>try\<close> block: the first flag that is true selects the operation.\<close>

definition athena_try :: "athena_client \<Rightarrow> params \<Rightarrow> calls \<Rightarrow> (py_exception + athena_result) \<times> calls" where
  "athena_try client p sent =
     (if truthy (list_databases p) then
        (Inr (Iterator \<lparr>operation = ''list_databases'',
                         kwargs = [(''CatalogName'', name p)]\<rparr>), sent)
      else if truthy (list_database_tables p) then
        (Inr (Iterator \<lparr>operation = ''list_table_metadata'',
                         kwargs = [(''CatalogName'', name p),
                                   (''DatabaseName'', database_name p)]\<rparr>), sent)
      else if truthy (list_work_groups p) then
        (if can_paginate client ''list_work_groups'' then
           (Inr (Iterator \<lparr>operation = ''list_work_groups'', kwargs = []\<rparr>), sent)
         else
           (let req = \<lparr>operation = ''list_work_groups'', kwargs = []\<rparr>
            in case call_reply client req of
                 Inl e \<Rightarrow> (Inl (ServiceError e), sent @ [req])
               | Inr response \<Rightarrow> (Inr (Response response), sent @ [req])))
      else
        (Inr (Iterator \<lparr>operation = ''list_data_catalogs'', kwargs = []\<rparr>), sent))"

text \<open>The \<open>except (BotoCoreError, ClientError)\<close> clause around it.\<close>

definition athena_body :: "athena_client \<Rightarrow> params \<Rightarrow> calls \<Rightarrow> athena_result completion \<times> calls" where
  "athena_body client p sent =
     (case athena_try client p sent of
        (Inl (ServiceError e), sent') \<Rightarrow>
          (SystemExit (Fail_json_aws e ''Failed to fetch aws athena details''), sent')
      | (Inl ex, sent') \<Rightarrow> (Raised ex, sent')
      | (Inr it, sent') \<Rightarrow> (Returned it, sent'))"

text \<open>
  Modelled from the spec: the decorator \<open>AWSRetry.exponential_backoff\<close> is imported and not
  among the source files. Sections 4.1 and 9 of the specification: a bounded retry loop around
  the decorated call, at most \<open>retries\<close> attempts, repeated only on a retryable service error;
  the waiting time between attempts is not part of the model. Whether a client error is
  retryable is the flag it carries (\<open>retryable\<close>).
\<close>

fun retryable :: "py_exception \<Rightarrow> bool" where
  "retryable (ServiceError (ClientError r msg)) = r"
| "retryable ex = False"

text \<open>Modelled from the spec: the loop of the absent decorator. An exception that is raised
  out of the call and is retryable leads to another attempt while attempts are left; a
  return, any other exception and an exit of the process pass through.\<close>

fun retry_loop :: "nat \<Rightarrow> (calls \<Rightarrow> 'a completion \<times> calls) \<Rightarrow> calls \<Rightarrow> 'a completion \<times> calls" where
  "retry_loop 0 f sent = f sent"
| "retry_loop (Suc n) f sent =
     (case f sent of
        (Raised ex, sent') \<Rightarrow> if retryable ex then retry_loop n f sent' else (Raised ex, sent')
      | (r, sent') \<Rightarrow> (r, sent'))"

text \<open>Modelled from the spec: the absent decorator with its \<open>retries\<close> argument, the first
  attempt and at most \<open>retries - 1\<close> more.\<close>

definition exponential_backoff ::
  "nat \<Rightarrow> (calls \<Rightarrow> 'a completion \<times> calls) \<Rightarrow> calls \<Rightarrow> 'a completion \<times> calls" where
  "exponential_backoff retries f sent = retry_loop (retries - 1) f sent"

text \<open>\<open>_athena\<close> as \<open>main\<close> calls it: the body under the decorator with \<open>retries=5\<close>.\<close>

definition athena :: "athena_client \<Rightarrow> params \<Rightarrow> calls \<Rightarrow> athena_result completion \<times> calls" where
  "athena client p sent = exponential_backoff 5 (athena_body client p) sent"

section \<open>\<open>main\<close>\<close>

text \<open>\<open>response[key]\<close> and the iteration of a \<open>for\<close> loop over a value.\<close>

definition getitem :: "pydict \<Rightarrow> string \<Rightarrow> py_exception + pyvalue" where
  "getitem d k = (case map_of d k of None \<Rightarrow> Inl (KeyError k) | Some v \<Rightarrow> Inr v)"

fun py_iter :: "pyvalue \<Rightarrow> py_exception + pyvalue list" where
  "py_iter (PList xs) = Inr xs"
| "py_iter (PDict d) = Inr (map (\<lambda>kv. PStr (fst kv)) d)"
| "py_iter (PStr s) = Inr (map (\<lambda>c. PStr [c]) s)"
| "py_iter v = Inl TypeError"

text \<open>The inner loop: every record of one page is renamed and appended to
  \<open>__default_return\<close>.\<close>

fun append_records :: "pyvalue list \<Rightarrow> pyvalue list \<Rightarrow> py_exception + pyvalue list" where
  "append_records [] default_return = Inr default_return"
| "append_records (x # xs) default_return =
     (case camel_dict_to_snake_dict x of
        Inl ex \<Rightarrow> Inl ex
      | Inr r \<Rightarrow> append_records xs (default_return @ [r]))"

definition response_records :: "string \<Rightarrow> pydict \<Rightarrow> pyvalue list \<Rightarrow> py_exception + pyvalue list" where
  "response_records key response default_return =
     (case getitem response key of
        Inl ex \<Rightarrow> Inl ex
      | Inr v \<Rightarrow>
          (case py_iter v of
             Inl ex \<Rightarrow> Inl ex
           | Inr xs \<Rightarrow> append_records xs default_return))"

text \<open>The outer loop over the page iterator: each turn fetches the next page; a fetch that
  fails raises out of the loop.\<close>

fun for_pages ::
  "string \<Rightarrow> request \<Rightarrow> reply list \<Rightarrow> pyvalue list \<Rightarrow> calls
     \<Rightarrow> (py_exception + pyvalue list) \<times> calls" where
  "for_pages key req [] default_return sent = (Inr default_return, sent)"
| "for_pages key req (Inl e # rest) default_return sent =
     (Inl (ServiceError e), sent @ [req])"
| "for_pages key req (Inr response # rest) default_return sent =
     (case response_records key response default_return of
        Inl ex \<Rightarrow> (Inl ex, sent @ [req])
      | Inr default_return' \<Rightarrow> for_pages key req rest default_return' (sent @ [req]))"

text \<open>\<open>for response in _it\<close> followed by \<open>response[key]\<close>. A page iterator yields pages. A
  plain response dictionary would yield its keys, and subscripting a key with a string
  raises \<open>TypeError\<close>.\<close>

fun for_response_in ::
  "athena_client \<Rightarrow> string \<Rightarrow> athena_result \<Rightarrow> calls \<Rightarrow> (py_exception + pyvalue list) \<times> calls" where
  "for_response_in client key (Iterator req) sent =
     for_pages key req (page_replies client req) [] sent"
| "for_response_in client key (Response []) sent = (Inr [], sent)"
| "for_response_in client key (Response (kv # d)) sent = (Inl TypeError, sent)"

text \<open>\<open>for workgroup in _it['WorkGroups']\<close>: the subscript is applied to whatever \<open>_athena\<close>
  returned; a page iterator has no subscript.\<close>

fun for_workgroup_in :: "athena_result \<Rightarrow> calls \<Rightarrow> (py_exception + pyvalue list) \<times> calls" where
  "for_workgroup_in (Iterator req) sent = (Inl TypeError, sent)"
| "for_workgroup_in (Response response) sent =
     (response_records ''WorkGroups'' response [], sent)"

definition exit_json :: "string \<Rightarrow> (py_exception + pyvalue list) \<times> calls \<Rightarrow> outcome \<times> calls" where
  "exit_json key r =
     (case r of
        (Inl ex, sent) \<Rightarrow> (Uncaught ex, sent)
      | (Inr default_return, sent) \<Rightarrow> (Exit_json key default_return, sent))"

definition main :: "athena_client \<Rightarrow> params \<Rightarrow> outcome \<times> calls" where
  "main client p0 =
     (case AnsibleAWSModule required_if mutually_exclusive p0 of
        Inl err \<Rightarrow> (Fail_json err, [])
      | Inr p \<Rightarrow>
          (case athena client p [] of
             (SystemExit out, sent) \<Rightarrow> (out, sent)
           | (Raised ex, sent) \<Rightarrow> (Uncaught ex, sent)
           | (Returned it, sent) \<Rightarrow>
               (if truthy (list_databases p) then
                  exit_json ''databases'' (for_response_in client ''DatabaseList'' it sent)
                else if truthy (list_database_tables p) then
                  exit_json ''tables'' (for_response_in client ''TableMetadataList'' it sent)
                else if truthy (list_work_groups p) then
                  exit_json ''work_groups'' (for_workgroup_in it sent)
                else
                  exit_json ''catalogs'' (for_response_in client ''DataCatalogsSummary'' it sent))))"

section \<open>Notions used to state the properties\<close>

text \<open>A snake_case name consists of lower-case letters, digits and underscores. The keys of a
  value are in snake_case when this holds for every key of every dictionary in it, through
  nested dictionaries and lists.\<close>
definition snake_char :: "char \<Rightarrow> bool" where
  "snake_char c = (is_lower c \<or> is_digit c \<or> c = CHR ''_'')"

definition is_snake_case :: "string \<Rightarrow> bool" where
  "is_snake_case k = list_all snake_char k"

fun keys_snake_case :: "pyvalue \<Rightarrow> bool"
  and items_snake_case :: "pydict \<Rightarrow> bool"
  and values_snake_case :: "pyvalue list \<Rightarrow> bool" where
  "keys_snake_case (PDict d) = items_snake_case d"
| "keys_snake_case (PList xs) = values_snake_case xs"
| "keys_snake_case PNone = True"
| "keys_snake_case (PBool b) = True"
| "keys_snake_case (PInt i) = True"
| "keys_snake_case (PStr s) = True"
| "items_snake_case [] = True"
| "items_snake_case ((k, v) # d) = (is_snake_case k \<and> keys_snake_case v \<and> items_snake_case d)"
| "values_snake_case [] = True"
| "values_snake_case (x # xs) = (keys_snake_case x \<and> values_snake_case xs)"

text \<open>Whether a parameter was supplied, as a count.\<close>

definition supplied :: "'a option \<Rightarrow> nat" where
  "supplied x = (if x = None then 0 else 1)"

text \<open>A page as the service sends it for a list operation: under the result key a list whose
  elements are all dictionaries. \<open>raw_records\<close> is that list.\<close>

definition is_record :: "pyvalue \<Rightarrow> bool" where
  "is_record v = (case v of PDict d \<Rightarrow> True | _ \<Rightarrow> False)"

definition good_response :: "string \<Rightarrow> pydict \<Rightarrow> bool" where
  "good_response key response =
     (case map_of response key of Some (PList xs) \<Rightarrow> list_all is_record xs | _ \<Rightarrow> False)"

definition raw_records :: "string \<Rightarrow> pydict \<Rightarrow> pyvalue list" where
  "raw_records key response = (case map_of response key of Some (PList xs) \<Rightarrow> xs | _ \<Rightarrow> [])"

text \<open>Concrete inputs: the empty parameter set, a client that gives the same answers to every
  request, and the raw pages of the two scenarios of the specification.\<close>

definition no_params :: params where
  "no_params = \<lparr>name = None, list_databases = None, database_name = None,
                 list_database_tables = None, list_work_groups = None\<rparr>"

definition fixed_client :: "bool \<Rightarrow> reply list \<Rightarrow> reply \<Rightarrow> athena_client" where
  "fixed_client pageable pages single =
     \<lparr>can_paginate = (\<lambda>op. pageable), page_replies = (\<lambda>req. pages), call_reply = (\<lambda>req. single)\<rparr>"

definition catalog_page :: pydict where
  "catalog_page =
     [(''DataCatalogsSummary'',
       PList [PDict [(''CatalogName'', PStr ''AwsDataCatalog''), (''Type'', PStr ''GLUE'')]])]"

definition database_page :: pydict where
  "database_page =
     [(''DatabaseList'',
       PList [PDict [(''Name'', PStr ''sampledb''), (''Description'', PStr ''Sample database'')]])]"

section \<open>The renaming of names without capitals\<close>

lemma snake_char_not_upper: "snake_char c \<Longrightarrow> \<not> is_upper c"
  by (auto simp: snake_char_def is_upper_def is_lower_def is_digit_def)

lemma sub_upper_pattern_no_upper:
  "\<forall>c \<in> set s. \<not> is_upper c \<Longrightarrow> sub_upper_pattern s = s"
  by (induction s) auto

lemma sub_first_cap_no_upper:
  "\<forall>c \<in> set s. \<not> is_upper c \<Longrightarrow> sub_first_cap s = s"
  by (induction s rule: sub_first_cap.induct) auto

lemma sub_all_cap_no_upper:
  "\<forall>c \<in> set s. \<not> is_upper c \<Longrightarrow> sub_all_cap s = s"
  by (induction s rule: sub_all_cap.induct) auto

lemma lower_no_upper:
  "\<forall>c \<in> set s. \<not> is_upper c \<Longrightarrow> lower s = s"
  by (induction s) (auto simp: lower_def lower_char_def)

lemma camel_to_snake_no_upper:
  "\<forall>c \<in> set s. \<not> is_upper c \<Longrightarrow> camel_to_snake s = s"
  by (auto simp: camel_to_snake_def sub_upper_pattern_no_upper sub_first_cap_no_upper
      sub_all_cap_no_upper lower_no_upper)

lemma camel_to_snake_snake_case: "is_snake_case k \<Longrightarrow> camel_to_snake k = k"
  by (rule camel_to_snake_no_upper) (auto simp: is_snake_case_def list_all_iff snake_char_not_upper)

lemma dict_set_fresh: "k \<notin> fst ` set d \<Longrightarrow> dict_set d k v = d @ [(k, v)]"
  by (induction d) auto

lemma snake_fixed:
  "(wf_value v \<longrightarrow> keys_snake_case v \<longrightarrow> snake_value v = v)"
  "(wf_items d \<longrightarrow> items_snake_case d \<longrightarrow> distinct (map fst (acc @ d)) \<longrightarrow> snake_items d acc = acc @ d)"
  "(wf_values xs \<longrightarrow> values_snake_case xs \<longrightarrow> value_is_list xs = xs)"
proof (induction v and d acc and xs rule: snake_value_snake_items_value_is_list.induct)
  case (8 k v d snake_dict)
  show ?case
  proof (intro impI)
    assume wf: "wf_items ((k, v) # d)" and sn: "items_snake_case ((k, v) # d)"
      and di: "distinct (map fst (snake_dict @ (k, v) # d))"
    from wf sn 8 have v: "snake_value v = v" by simp
    from sn have k: "camel_to_snake k = k" by (simp add: camel_to_snake_snake_case)
    from di have fresh: "k \<notin> fst ` set snake_dict" by auto
    from di have di': "distinct (map fst ((snake_dict @ [(k, v)]) @ d))" by simp
    from wf sn di' 8 have "snake_items d (snake_dict @ [(k, v)]) = (snake_dict @ [(k, v)]) @ d"
      by (simp add: v k dict_set_fresh [OF fresh])
    then show "snake_items ((k, v) # d) snake_dict = snake_dict @ (k, v) # d"
      by (simp add: v k dict_set_fresh [OF fresh])
  qed
qed auto

section \<open>Validation, retry and the page loops\<close>

lemma count_group1:
  "count_terms [''list_databases'', ''list_database_tables'', ''list_work_groups''] p =
     supplied (list_databases p) + supplied (list_database_tables p) + supplied (list_work_groups p)"
  by (simp add: count_terms_def get_param_def supplied_def)

lemma count_group2:
  "count_terms [''name'', ''list_work_groups''] p = supplied (name p) + supplied (list_work_groups p)"
  by (simp add: count_terms_def get_param_def supplied_def)

lemma count_group3:
  "count_terms [''database_name'', ''list_work_groups''] p =
     supplied (database_name p) + supplied (list_work_groups p)"
  by (simp add: count_terms_def get_param_def supplied_def)

lemma count_single:
  "count_terms [''name''] p = supplied (name p)"
  "count_terms [''database_name''] p = supplied (database_name p)"
  by (simp_all add: count_terms_def get_param_def supplied_def)

lemma check_mutually_exclusive_main:
  "check_mutually_exclusive mutually_exclusive p =
     (if 1 < supplied (list_databases p) + supplied (list_database_tables p) + supplied (list_work_groups p)
      then [[''list_databases'', ''list_database_tables'', ''list_work_groups'']] else []) @
     (if 1 < supplied (name p) + supplied (list_work_groups p)
      then [[''name'', ''list_work_groups'']] else []) @
     (if 1 < supplied (database_name p) + supplied (list_work_groups p)
      then [[''database_name'', ''list_work_groups'']] else [])"
  by (simp add: check_mutually_exclusive_def mutually_exclusive_def count_group1 count_group2 count_group3)

lemma check_required_if_main:
  "check_required_if required_if p =
     (if list_databases p = Some True \<and> name p = None then [(''list_databases'', [''name''])] else []) @
     (if list_database_tables p = Some True \<and> (name p = None \<or> database_name p = None)
      then [(''list_database_tables'',
             (if name p = None then [''name''] else []) @
             (if database_name p = None then [''database_name''] else []))]
      else [])"
  by (cases "list_databases p"; cases "list_database_tables p"; cases "name p"; cases "database_name p")
    (simp_all add: required_if_def count_single supplied_def get_param_def Let_def)

lemma athena_try_no_raise:
  "athena_try client p sent = (Inl ex, sent') \<Longrightarrow> \<exists>e. ex = ServiceError e"
  by (auto simp: athena_try_def Let_def split: if_splits sum.splits)

lemma athena_body_no_raise: "fst (athena_body client p sent) \<noteq> Raised ex"
proof (cases "athena_try client p sent")
  case (Pair r sent')
  then show ?thesis
    by (cases r) (auto simp: athena_body_def dest: athena_try_no_raise split: py_exception.splits)
qed

lemma retry_loop_no_raise:
  "(\<And>ex. fst (f sent) \<noteq> Raised ex) \<Longrightarrow> retry_loop n f sent = f sent"
  by (cases n; cases "f sent"; cases "fst (f sent)") auto

lemma athena_body_eq: "athena client p sent = athena_body client p sent"
  by (simp add: athena_def exponential_backoff_def retry_loop_no_raise athena_body_no_raise)


lemma append_records_ok:
  "list_all is_record xs \<Longrightarrow> append_records xs acc = Inr (acc @ map snake_value xs)"
proof (induction xs arbitrary: acc)
  case Nil
  then show ?case by simp
next
  case (Cons x xs)
  from Cons.prems obtain d where x: "x = PDict d"
    by (cases x) (auto simp: is_record_def)
  from Cons.prems have "list_all is_record xs" by simp
  then show ?case
    by (simp add: x Cons.IH)
qed

lemma response_records_ok:
  "good_response key response \<Longrightarrow>
   response_records key response acc = Inr (acc @ map snake_value (raw_records key response))"
  by (auto simp: good_response_def raw_records_def response_records_def getitem_def
      append_records_ok split: option.splits pyvalue.splits)

lemma for_pages_ok:
  "list_all (good_response key) pages \<Longrightarrow>
   for_pages key req (map Inr pages) acc sent =
     (Inr (acc @ map snake_value (concat (map (raw_records key) pages))),
      sent @ replicate (length pages) req)"
proof (induction pages arbitrary: acc sent)
  case Nil
  then show ?case by simp
next
  case (Cons r pages)
  then show ?case
    by (simp add: response_records_ok replicate_append_same)
qed

lemma for_pages_error:
  "list_all (good_response key) pages \<Longrightarrow>
   for_pages key req (map Inr pages @ Inl e # rest) acc sent =
     (Inl (ServiceError e), sent @ replicate (Suc (length pages)) req)"
proof (induction pages arbitrary: acc sent)
  case Nil
  then show ?case by simp
next
  case (Cons r pages)
  then show ?case
    by (simp add: response_records_ok replicate_append_same)
qed

lemma valid_iff:
  "AnsibleAWSModule required_if mutually_exclusive p = Inr p' \<longleftrightarrow>
     p' = p \<and> check_mutually_exclusive mutually_exclusive p = [] \<and> check_required_if required_if p = []"
  by (auto simp: AnsibleAWSModule_def split: list.splits)

lemma valid_flags:
  assumes "AnsibleAWSModule required_if mutually_exclusive p = Inr p'"
  shows "supplied (list_databases p) + supplied (list_database_tables p) + supplied (list_work_groups p) \<le> 1"
    and "supplied (name p) + supplied (list_work_groups p) \<le> 1"
    and "supplied (database_name p) + supplied (list_work_groups p) \<le> 1"
  using assms unfolding valid_iff check_mutually_exclusive_main
  by (auto split: if_splits)

section \<open>\<open>main\<close> after validation\<close>

lemma main_invalid:
  "check_mutually_exclusive mutually_exclusive p = g # gs \<Longrightarrow>
   main client p = (Fail_json (Mutually_exclusive (g # gs)), [])"
  by (simp add: main_def AnsibleAWSModule_def)

lemma main_valid:
  assumes "AnsibleAWSModule required_if mutually_exclusive p = Inr p"
  shows "main client p =
     (case athena_body client p [] of
        (SystemExit out, sent) \<Rightarrow> (out, sent)
      | (Raised ex, sent) \<Rightarrow> (Uncaught ex, sent)
      | (Returned it, sent) \<Rightarrow>
          (if truthy (list_databases p) then
             exit_json ''databases'' (for_response_in client ''DatabaseList'' it sent)
           else if truthy (list_database_tables p) then
             exit_json ''tables'' (for_response_in client ''TableMetadataList'' it sent)
           else if truthy (list_work_groups p) then
             exit_json ''work_groups'' (for_workgroup_in it sent)
           else
             exit_json ''catalogs'' (for_response_in client ''DataCatalogsSummary'' it sent)))"
  using assms by (simp add: main_def athena_body_eq)

lemma valid_one_mode:
  assumes "AnsibleAWSModule required_if mutually_exclusive p = Inr p"
  shows "truthy (list_database_tables p) \<Longrightarrow> \<not> truthy (list_databases p)"
    and "truthy (list_work_groups p) \<Longrightarrow> \<not> truthy (list_databases p) \<and> \<not> truthy (list_database_tables p)"
  using valid_flags(1) [OF assms] by (auto simp: truthy_def supplied_def split: if_splits)

lemma main_cong:
  assumes "AnsibleAWSModule required_if mutually_exclusive p = Inr p"
    and "AnsibleAWSModule required_if mutually_exclusive q = Inr q"
    and "truthy (list_databases p) = truthy (list_databases q)"
    and "truthy (list_database_tables p) = truthy (list_database_tables q)"
    and "truthy (list_work_groups p) = truthy (list_work_groups q)"
    and "athena_try client p [] = athena_try client q []"
  shows "main client p = main client q"
proof -
  have b: "athena_body client p [] = athena_body client q []"
    using assms(6) by (simp add: athena_body_def)
  show ?thesis
    unfolding main_valid [OF assms(1)] main_valid [OF assms(2)] b assms(3) assms(4) assms(5)
    by (rule refl)
qed

lemma validation_database_name:
  assumes "list_database_tables p \<noteq> Some True" and "list_work_groups p = None"
  shows "check_mutually_exclusive mutually_exclusive (p\<lparr>database_name := d\<rparr>)
           = check_mutually_exclusive mutually_exclusive p"
    and "check_required_if required_if (p\<lparr>database_name := d\<rparr>) = check_required_if required_if p"
  using assms by (auto simp: check_mutually_exclusive_main check_required_if_main supplied_def)

lemma work_groups_paginated_raises:
  assumes "AnsibleAWSModule required_if mutually_exclusive p = Inr p"
    and "truthy (list_work_groups p)"
    and "can_paginate client ''list_work_groups''"
  shows "main client p = (Uncaught TypeError, [])"
  using assms(2,3) valid_one_mode(2) [OF assms(1)]
  by (simp add: main_valid [OF assms(1)] athena_body_def athena_try_def exit_json_def)

lemma work_groups_single_response:
  assumes "AnsibleAWSModule required_if mutually_exclusive p = Inr p"
    and "truthy (list_work_groups p)"
    and "\<not> can_paginate client ''list_work_groups''"
    and "call_reply client \<lparr>operation = ''list_work_groups'', kwargs = []\<rparr> = Inr response"
    and "good_response ''WorkGroups'' response"
  shows "main client p =
           (Exit_json ''work_groups'' (map snake_value (raw_records ''WorkGroups'' response)),
            [\<lparr>operation = ''list_work_groups'', kwargs = []\<rparr>])"
  using assms(2-4) valid_one_mode(2) [OF assms(1)] response_records_ok [OF assms(5), of "[]"]
  by (simp add: main_valid [OF assms(1)] athena_body_def athena_try_def exit_json_def)

lemma direct_call_error_reported:
  assumes "AnsibleAWSModule required_if mutually_exclusive p = Inr p"
    and "truthy (list_work_groups p)"
    and "\<not> can_paginate client ''list_work_groups''"
    and "call_reply client \<lparr>operation = ''list_work_groups'', kwargs = []\<rparr> = Inl e"
  shows "main client p =
           (Fail_json_aws e ''Failed to fetch aws athena details'',
            [\<lparr>operation = ''list_work_groups'', kwargs = []\<rparr>])"
  using assms(2-4) valid_one_mode(2) [OF assms(1)]
  by (simp add: main_valid [OF assms(1)] athena_body_def athena_try_def exit_json_def)

section \<open>Listing work groups\<close>

text \<open>
  C1. With \<open>list_work_groups\<close> set, validation passed and the service answering, the module
  is to exit with \<open>work_groups\<close> holding one renamed record per work group: across the pages
  when the operation is paginated, from the single response when it is not. The second half
  holds (\<open>work_groups_single_response\<close>). The first does not: when the client can paginate
  the operation, \<open>_athena\<close> returns the page iterator, and \<open>main\<close> subscripts it with
  \<open>'WorkGroups'\<close> as if it were a response, where the three other modes loop over the pages.
  The run ends in a \<open>TypeError\<close> before any page is fetched
  (\<open>work_groups_paginated_raises\<close>). Below, the same request against a client that can
  paginate and against one that cannot.
\<close>

theorem paginated_work_groups_type_error:
  "main (fixed_client True
           [Inr [(''WorkGroups'', PList [PDict [(''Name'', PStr ''primary''), (''State'', PStr ''ENABLED'')]])]]
           (Inr [(''WorkGroups'', PList [PDict [(''Name'', PStr ''primary''), (''State'', PStr ''ENABLED'')]])]))
        (no_params\<lparr>list_work_groups := Some True\<rparr>)
     = (Uncaught TypeError, [])
   \<and> main (fixed_client False
           [Inr [(''WorkGroups'', PList [PDict [(''Name'', PStr ''primary''), (''State'', PStr ''ENABLED'')]])]]
           (Inr [(''WorkGroups'', PList [PDict [(''Name'', PStr ''primary''), (''State'', PStr ''ENABLED'')]])]))
        (no_params\<lparr>list_work_groups := Some True\<rparr>)
     = (Exit_json ''work_groups'' [PDict [(''name'', PStr ''primary''), (''state'', PStr ''ENABLED'')]],
        [\<lparr>operation = ''list_work_groups'', kwargs = []\<rparr>])"
  by code_simp

section \<open>A service error while a page is fetched\<close>

text \<open>
  C2. A service error is to end the run as a failure that carries the service's diagnostic,
  with no output key and no partial record set. The \<open>except\<close> clause of \<open>_athena\<close> does
  that for what is raised inside \<open>_athena\<close>, the direct call of the unpaginated work group
  listing (\<open>direct_call_error_reported\<close>). In the paginated modes nothing is sent there: the
  pages are fetched by the loops of \<open>main\<close>, outside that clause. Below, the default mode
  with the first page fetch refused: the exception leaves \<open>main\<close> uncaught and
  \<open>fail_json_aws\<close> is not reached. No output key is produced.
\<close>

theorem page_fetch_error_not_reported:
  "main (fixed_client True [Inl (ClientError False ''AccessDeniedException'')] (Inr [])) no_params
     = (Uncaught (ServiceError (ClientError False ''AccessDeniedException'')),
        [\<lparr>operation = ''list_data_catalogs'', kwargs = []\<rparr>])"
  by code_simp

section \<open>More than one mode\<close>

text \<open>
  C3. Whenever more than one of \<open>list_databases\<close>, \<open>list_database_tables\<close> and
  \<open>list_work_groups\<close> is true, the run fails validation, on the group of the three flags, and
  no request has been sent.
\<close>

theorem several_modes_fail_validation:
  assumes "(list_databases p = Some True \<and> list_database_tables p = Some True)
         \<or> (list_databases p = Some True \<and> list_work_groups p = Some True)
         \<or> (list_database_tables p = Some True \<and> list_work_groups p = Some True)"
  shows "\<exists>groups. main client p = (Fail_json (Mutually_exclusive groups), [])
           \<and> [''list_databases'', ''list_database_tables'', ''list_work_groups''] \<in> set groups"
proof -
  from assms have
    "1 < supplied (list_databases p) + supplied (list_database_tables p) + supplied (list_work_groups p)"
    by (auto simp: supplied_def)
  then obtain gs where gs: "check_mutually_exclusive mutually_exclusive p =
      [''list_databases'', ''list_database_tables'', ''list_work_groups''] # gs"
    by (simp add: check_mutually_exclusive_main)
  from main_invalid [OF gs] show ?thesis by auto
qed

text \<open>A catalog name with both \<open>list_databases\<close> and \<open>list_work_groups\<close>.\<close>

theorem several_modes_fail_validation_witness:
  "((list_databases (no_params\<lparr>name := Some ''AwsDataCatalog'', list_databases := Some True,
                                list_work_groups := Some True\<rparr>) = Some True
      \<and> list_database_tables (no_params\<lparr>name := Some ''AwsDataCatalog'', list_databases := Some True,
                                list_work_groups := Some True\<rparr>) = Some True)
    \<or> (list_databases (no_params\<lparr>name := Some ''AwsDataCatalog'', list_databases := Some True,
                                list_work_groups := Some True\<rparr>) = Some True
      \<and> list_work_groups (no_params\<lparr>name := Some ''AwsDataCatalog'', list_databases := Some True,
                                list_work_groups := Some True\<rparr>) = Some True)
    \<or> (list_database_tables (no_params\<lparr>name := Some ''AwsDataCatalog'', list_databases := Some True,
                                list_work_groups := Some True\<rparr>) = Some True
      \<and> list_work_groups (no_params\<lparr>name := Some ''AwsDataCatalog'', list_databases := Some True,
                                list_work_groups := Some True\<rparr>) = Some True))
   \<and> (\<exists>groups. main (fixed_client True [] (Inr []))
                   (no_params\<lparr>name := Some ''AwsDataCatalog'', list_databases := Some True,
                              list_work_groups := Some True\<rparr>)
                 = (Fail_json (Mutually_exclusive groups), [])
          \<and> [''list_databases'', ''list_database_tables'', ''list_work_groups''] \<in> set groups)"
proof -
  let ?p = "no_params\<lparr>name := Some ''AwsDataCatalog'', list_databases := Some True,
                       list_work_groups := Some True\<rparr>"
  have h: "(list_databases ?p = Some True \<and> list_database_tables ?p = Some True)
         \<or> (list_databases ?p = Some True \<and> list_work_groups ?p = Some True)
         \<or> (list_database_tables ?p = Some True \<and> list_work_groups ?p = Some True)"
    by (simp add: no_params_def)
  from several_modes_fail_validation [OF h, of "fixed_client True [] (Inr [])"] h
  show ?thesis by blast
qed

section \<open>The table listing needs both names\<close>

text \<open>
  C4. With \<open>list_database_tables\<close> true, validation fails before any request unless both
  \<open>name\<close> and \<open>database_name\<close> are present: if one of them is missing the run ends in a
  validation failure with nothing sent, and if both are present no \<open>required_if\<close> rule is
  violated.
\<close>

theorem tables_mode_requires_both_names:
  assumes "list_database_tables p = Some True"
  shows "(name p = None \<or> database_name p = None \<longrightarrow> (\<exists>err. main client p = (Fail_json err, [])))
       \<and> (name p \<noteq> None \<and> database_name p \<noteq> None \<longrightarrow> check_required_if required_if p = [])"
proof (intro conjI impI)
  assume missing: "name p = None \<or> database_name p = None"
  with assms have "check_required_if required_if p \<noteq> []"
    by (auto simp: check_required_if_main)
  then show "\<exists>err. main client p = (Fail_json err, [])"
    by (auto simp: main_def AnsibleAWSModule_def split: list.splits)
next
  assume "name p \<noteq> None \<and> database_name p \<noteq> None"
  then show "check_required_if required_if p = []"
    by (simp add: check_required_if_main)
qed

text \<open>The table listing with the database name missing, and with both names.\<close>

theorem tables_mode_requires_both_names_witness:
  "list_database_tables (no_params\<lparr>name := Some ''AwsDataCatalog'', list_database_tables := Some True\<rparr>)
     = Some True
   \<and> (name (no_params\<lparr>name := Some ''AwsDataCatalog'', list_database_tables := Some True\<rparr>) = None
      \<or> database_name (no_params\<lparr>name := Some ''AwsDataCatalog'', list_database_tables := Some True\<rparr>)
           = None)
   \<and> (\<exists>err. main (fixed_client True [] (Inr []))
                (no_params\<lparr>name := Some ''AwsDataCatalog'', list_database_tables := Some True\<rparr>)
              = (Fail_json err, []))
   \<and> list_database_tables (no_params\<lparr>name := Some ''AwsDataCatalog'', database_name := Some ''sampledb'',
                                       list_database_tables := Some True\<rparr>) = Some True
   \<and> name (no_params\<lparr>name := Some ''AwsDataCatalog'', database_name := Some ''sampledb'',
                       list_database_tables := Some True\<rparr>) \<noteq> None
   \<and> database_name (no_params\<lparr>name := Some ''AwsDataCatalog'', database_name := Some ''sampledb'',
                                list_database_tables := Some True\<rparr>) \<noteq> None
   \<and> check_required_if required_if
        (no_params\<lparr>name := Some ''AwsDataCatalog'', database_name := Some ''sampledb'',
                   list_database_tables := Some True\<rparr>) = []"
proof -
  let ?p = "no_params\<lparr>name := Some ''AwsDataCatalog'', list_database_tables := Some True\<rparr>"
  let ?q = "no_params\<lparr>name := Some ''AwsDataCatalog'', database_name := Some ''sampledb'',
                       list_database_tables := Some True\<rparr>"
  have p1: "list_database_tables ?p = Some True" by (simp add: no_params_def)
  have p2: "name ?p = None \<or> database_name ?p = None" by (simp add: no_params_def)
  have q1: "list_database_tables ?q = Some True" by (simp add: no_params_def)
  have q2: "name ?q \<noteq> None \<and> database_name ?q \<noteq> None" by (simp add: no_params_def)
  from tables_mode_requires_both_names [OF p1, of "fixed_client True [] (Inr [])"] p2
  have a: "\<exists>err. main (fixed_client True [] (Inr [])) ?p = (Fail_json err, [])" by blast
  from tables_mode_requires_both_names [OF q1, of "fixed_client True [] (Inr [])"] q2
  have b: "check_required_if required_if ?q = []" by blast
  from p1 p2 a q1 q2 b show ?thesis by blast
qed

section \<open>The default mode\<close>

text \<open>
  C5, as amended. Not every run in which none of the three flags is true reaches the catalog
  listing: the mutual exclusion groups count an option that is supplied, whatever its value,
  so such a run can be refused at validation (shown after the theorem). For every run that
  passes validation, in which none of the three flags is true and every page fetch returns a
  page, the catalog listing runs and the module exits with \<open>catalogs\<close>: the records of all
  pages in order, keys renamed to snake_case. One request is sent per page.
\<close>

theorem default_mode_returns_catalogs:
  assumes "AnsibleAWSModule required_if mutually_exclusive p = Inr p"
    and "\<not> truthy (list_databases p)"
    and "\<not> truthy (list_database_tables p)"
    and "\<not> truthy (list_work_groups p)"
    and "page_replies client \<lparr>operation = ''list_data_catalogs'', kwargs = []\<rparr> = map Inr pages"
    and "list_all (good_response ''DataCatalogsSummary'') pages"
  shows "main client p =
     (Exit_json ''catalogs''
        (map snake_value (concat (map (raw_records ''DataCatalogsSummary'') pages))),
      replicate (length pages) \<lparr>operation = ''list_data_catalogs'', kwargs = []\<rparr>)"
  using assms(2-5) for_pages_ok [OF assms(6), of "\<lparr>operation = ''list_data_catalogs'', kwargs = []\<rparr>" "[]" "[]"]
  by (simp add: main_valid [OF assms(1)] athena_body_def athena_try_def exit_json_def)

text \<open>The scenario of the specification: no parameters, one page with the catalog \<open>AwsDataCatalog\<close>.\<close>

theorem default_mode_returns_catalogs_witness:
  "AnsibleAWSModule required_if mutually_exclusive no_params = Inr no_params
   \<and> \<not> truthy (list_databases no_params)
   \<and> \<not> truthy (list_database_tables no_params)
   \<and> \<not> truthy (list_work_groups no_params)
   \<and> page_replies
        (fixed_client True
           [Inr [(''DataCatalogsSummary'',
                  PList [PDict [(''CatalogName'', PStr ''AwsDataCatalog''), (''Type'', PStr ''GLUE'')]])]]
           (Inr []))
        \<lparr>operation = ''list_data_catalogs'', kwargs = []\<rparr>
      = map Inr [[(''DataCatalogsSummary'',
                  PList [PDict [(''CatalogName'', PStr ''AwsDataCatalog''), (''Type'', PStr ''GLUE'')]])]]
   \<and> list_all (good_response ''DataCatalogsSummary'')
        [[(''DataCatalogsSummary'',
                  PList [PDict [(''CatalogName'', PStr ''AwsDataCatalog''), (''Type'', PStr ''GLUE'')]])]]
   \<and> main
        (fixed_client True
           [Inr [(''DataCatalogsSummary'',
                  PList [PDict [(''CatalogName'', PStr ''AwsDataCatalog''), (''Type'', PStr ''GLUE'')]])]]
           (Inr []))
        no_params
      = (Exit_json ''catalogs''
           [PDict [(''catalog_name'', PStr ''AwsDataCatalog''), (''type'', PStr ''GLUE'')]],
         [\<lparr>operation = ''list_data_catalogs'', kwargs = []\<rparr>])"
proof -
  let ?page = "[(''DataCatalogsSummary'',
                  PList [PDict [(''CatalogName'', PStr ''AwsDataCatalog''), (''Type'', PStr ''GLUE'')]])]"
  let ?client = "fixed_client True [Inr ?page] (Inr [])"
  have v: "AnsibleAWSModule required_if mutually_exclusive no_params = Inr no_params"
    by code_simp
  have f1: "\<not> truthy (list_databases no_params)" by code_simp
  have f2: "\<not> truthy (list_database_tables no_params)" by code_simp
  have f3: "\<not> truthy (list_work_groups no_params)" by code_simp
  have r: "page_replies ?client \<lparr>operation = ''list_data_catalogs'', kwargs = []\<rparr> = map Inr [?page]"
    by (simp add: fixed_client_def)
  have g: "list_all (good_response ''DataCatalogsSummary'') [?page]" by code_simp
  have e: "map snake_value (concat (map (raw_records ''DataCatalogsSummary'') [?page]))
         = [PDict [(''catalog_name'', PStr ''AwsDataCatalog''), (''type'', PStr ''GLUE'')]]"
    by code_simp
  from default_mode_returns_catalogs [OF v f1 f2 f3 r g] v f1 f2 f3 r g e
  show ?thesis by simp
qed

text \<open>The claim as worded, for every run with no flag true, fails on a catalog name together
  with \<open>list_work_groups=false\<close>: no flag is true, and the run is refused on the group
  \<open>('name', 'list_work_groups')\<close> of \<open>main\<close> before anything is sent.\<close>

theorem default_mode_rejected_counterexample:
  "\<not> truthy (list_databases (no_params\<lparr>name := Some ''AwsDataCatalog'', list_work_groups := Some False\<rparr>))
   \<and> \<not> truthy (list_database_tables
                (no_params\<lparr>name := Some ''AwsDataCatalog'', list_work_groups := Some False\<rparr>))
   \<and> \<not> truthy (list_work_groups
                (no_params\<lparr>name := Some ''AwsDataCatalog'', list_work_groups := Some False\<rparr>))
   \<and> main (fixed_client True [Inr catalog_page] (Inr []))
        (no_params\<lparr>name := Some ''AwsDataCatalog'', list_work_groups := Some False\<rparr>)
     = (Fail_json (Mutually_exclusive [[''name'', ''list_work_groups'']]), [])"
  by code_simp

section \<open>The normalizer on records that are already in snake_case\<close>

text \<open>
  C6. The key-renaming normalizer is idempotent in the sense of the specification: a record
  whose keys are all in snake_case already, through nested dictionaries and lists of
  dictionaries, comes back unchanged. A record is a Python dictionary, so no key occurs in
  it twice (\<open>wf_value\<close>).
\<close>

theorem normalizer_fixes_snake_case_record:
  assumes "wf_value (PDict d)" and "keys_snake_case (PDict d)"
  shows "camel_dict_to_snake_dict (PDict d) = Inr (PDict d)"
  using assms snake_fixed(2) [of d "[]"] by simp

text \<open>The sample table record of the module documentation is such a record.\<close>

theorem normalizer_fixes_snake_case_record_witness:
  "wf_value (PDict [(''name'', PStr ''elb_logs''), (''table_type'', PStr ''EXTERNAL_TABLE''),
      (''columns'', PList [PDict [(''name'', PStr ''request_timestamp''), (''type'', PStr ''string'')]]),
      (''parameters'', PDict [(''created_by'', PStr ''Athena'')]), (''partition_keys'', PList [])])
   \<and> keys_snake_case (PDict [(''name'', PStr ''elb_logs''), (''table_type'', PStr ''EXTERNAL_TABLE''),
      (''columns'', PList [PDict [(''name'', PStr ''request_timestamp''), (''type'', PStr ''string'')]]),
      (''parameters'', PDict [(''created_by'', PStr ''Athena'')]), (''partition_keys'', PList [])])
   \<and> camel_dict_to_snake_dict (PDict [(''name'', PStr ''elb_logs''), (''table_type'', PStr ''EXTERNAL_TABLE''),
      (''columns'', PList [PDict [(''name'', PStr ''request_timestamp''), (''type'', PStr ''string'')]]),
      (''parameters'', PDict [(''created_by'', PStr ''Athena'')]), (''partition_keys'', PList [])])
     = Inr (PDict [(''name'', PStr ''elb_logs''), (''table_type'', PStr ''EXTERNAL_TABLE''),
      (''columns'', PList [PDict [(''name'', PStr ''request_timestamp''), (''type'', PStr ''string'')]]),
      (''parameters'', PDict [(''created_by'', PStr ''Athena'')]), (''partition_keys'', PList [])])"
proof -
  let ?r = "[(''name'', PStr ''elb_logs''), (''table_type'', PStr ''EXTERNAL_TABLE''),
      (''columns'', PList [PDict [(''name'', PStr ''request_timestamp''), (''type'', PStr ''string'')]]),
      (''parameters'', PDict [(''created_by'', PStr ''Athena'')]), (''partition_keys'', PList [])]"
  have wf: "wf_value (PDict ?r)" by code_simp
  have sn: "keys_snake_case (PDict ?r)" by code_simp
  from normalizer_fixes_snake_case_record [OF wf sn] wf sn show ?thesis by simp
qed

section \<open>Work groups with a name\<close>

text \<open>
  C7. With \<open>list_work_groups\<close> true and \<open>name\<close> or \<open>database_name\<close> set, the run fails
  validation on the corresponding group, and no request has been sent.
\<close>

theorem work_groups_with_name_fails_validation:
  assumes "list_work_groups p = Some True" and "name p \<noteq> None \<or> database_name p \<noteq> None"
  shows "\<exists>groups. main client p = (Fail_json (Mutually_exclusive groups), [])
           \<and> (name p \<noteq> None \<longrightarrow> [''name'', ''list_work_groups''] \<in> set groups)
           \<and> (database_name p \<noteq> None \<longrightarrow> [''database_name'', ''list_work_groups''] \<in> set groups)"
proof -
  let ?gs = "check_mutually_exclusive mutually_exclusive p"
  from assms have mem:
    "(name p \<noteq> None \<longrightarrow> [''name'', ''list_work_groups''] \<in> set ?gs)
     \<and> (database_name p \<noteq> None \<longrightarrow> [''database_name'', ''list_work_groups''] \<in> set ?gs)"
    by (auto simp: check_mutually_exclusive_main supplied_def)
  with assms(2) obtain g gs where gs: "?gs = g # gs"
    by (cases ?gs) auto
  from main_invalid [OF gs] mem gs show ?thesis by auto
qed

text \<open>The work group listing with a database name.\<close>

theorem work_groups_with_name_fails_validation_witness:
  "list_work_groups (no_params\<lparr>database_name := Some ''sampledb'', list_work_groups := Some True\<rparr>)
     = Some True
   \<and> database_name (no_params\<lparr>database_name := Some ''sampledb'', list_work_groups := Some True\<rparr>)
     = Some ''sampledb''
   \<and> main (fixed_client False [] (Inr [(''WorkGroups'', PList [])]))
        (no_params\<lparr>database_name := Some ''sampledb'', list_work_groups := Some True\<rparr>)
     = (Fail_json (Mutually_exclusive [[''database_name'', ''list_work_groups'']]), [])"
proof -
  let ?p = "no_params\<lparr>database_name := Some ''sampledb'', list_work_groups := Some True\<rparr>"
  let ?c = "fixed_client False [] (Inr [(''WorkGroups'', PList [])])"
  have h1: "list_work_groups ?p = Some True" by (simp add: no_params_def)
  have h2: "name ?p \<noteq> None \<or> database_name ?p \<noteq> None" by (simp add: no_params_def)
  have g: "check_mutually_exclusive mutually_exclusive ?p = [[''database_name'', ''list_work_groups'']]"
    by code_simp
  from work_groups_with_name_fails_validation [OF h1 h2, of ?c]
  obtain groups where "main ?c ?p = (Fail_json (Mutually_exclusive groups), [])" by blast
  moreover have "main ?c ?p = (Fail_json (Mutually_exclusive [[''database_name'', ''list_work_groups'']]), [])"
    by (simp add: main_def AnsibleAWSModule_def g)
  moreover have "database_name ?p = Some ''sampledb''" by (simp add: no_params_def)
  ultimately show ?thesis using h1 by simp
qed

section \<open>What the error handling of \<open>_athena\<close> covers\<close>

text \<open>
  C8. In the three modes whose pages \<open>main\<close> iterates, \<open>_athena\<close>, with its \<open>except\<close>
  clause and under its retry decorator, returns the page iterator without having sent
  anything. A service error at a page fetch, after any number of pages that arrived, is
  raised in the loop of \<open>main\<close>: the run ends with that exception uncaught, not with
  \<open>fail_json_aws\<close>, and the failed fetch is the last request sent, so it was not repeated.
\<close>

theorem page_fetch_error_escapes:
  assumes "AnsibleAWSModule required_if mutually_exclusive p = Inr p"
    and "(truthy (list_databases p)
            \<and> req = \<lparr>operation = ''list_databases'', kwargs = [(''CatalogName'', name p)]\<rparr>
            \<and> key = ''DatabaseList'')
       \<or> (truthy (list_database_tables p)
            \<and> req = \<lparr>operation = ''list_table_metadata'',
                      kwargs = [(''CatalogName'', name p), (''DatabaseName'', database_name p)]\<rparr>
            \<and> key = ''TableMetadataList'')
       \<or> (\<not> truthy (list_databases p) \<and> \<not> truthy (list_database_tables p)
            \<and> \<not> truthy (list_work_groups p)
            \<and> req = \<lparr>operation = ''list_data_catalogs'', kwargs = []\<rparr>
            \<and> key = ''DataCatalogsSummary'')"
    and "page_replies client req = map Inr pages @ Inl e # rest"
    and "list_all (good_response key) pages"
  shows "athena client p [] = (Returned (Iterator req), [])
       \<and> main client p = (Uncaught (ServiceError e), replicate (Suc (length pages)) req)"
  using assms(2,3) valid_one_mode [OF assms(1)] for_pages_error [OF assms(4), of req e rest "[]" "[]"]
  by (auto simp: main_valid [OF assms(1)] athena_body_eq athena_body_def athena_try_def exit_json_def)

text \<open>The default mode with the second page fetch refused.\<close>

theorem page_fetch_error_escapes_witness:
  "AnsibleAWSModule required_if mutually_exclusive no_params = Inr no_params
   \<and> \<not> truthy (list_databases no_params) \<and> \<not> truthy (list_database_tables no_params)
   \<and> \<not> truthy (list_work_groups no_params)
   \<and> page_replies
        (fixed_client True [Inr catalog_page, Inl (ClientError False ''AccessDeniedException'')] (Inr []))
        \<lparr>operation = ''list_data_catalogs'', kwargs = []\<rparr>
      = map Inr [catalog_page] @ Inl (ClientError False ''AccessDeniedException'') # []
   \<and> list_all (good_response ''DataCatalogsSummary'') [catalog_page]
   \<and> athena
        (fixed_client True [Inr catalog_page, Inl (ClientError False ''AccessDeniedException'')] (Inr []))
        no_params []
      = (Returned (Iterator \<lparr>operation = ''list_data_catalogs'', kwargs = []\<rparr>), [])
   \<and> main
        (fixed_client True [Inr catalog_page, Inl (ClientError False ''AccessDeniedException'')] (Inr []))
        no_params
      = (Uncaught (ServiceError (ClientError False ''AccessDeniedException'')),
         [\<lparr>operation = ''list_data_catalogs'', kwargs = []\<rparr>,
          \<lparr>operation = ''list_data_catalogs'', kwargs = []\<rparr>])"
proof -
  let ?e = "ClientError False ''AccessDeniedException''"
  let ?c = "fixed_client True [Inr catalog_page, Inl ?e] (Inr [])"
  let ?req = "\<lparr>operation = ''list_data_catalogs'', kwargs = []\<rparr>"
  have v: "AnsibleAWSModule required_if mutually_exclusive no_params = Inr no_params"
    by code_simp
  have f: "\<not> truthy (list_databases no_params) \<and> \<not> truthy (list_database_tables no_params)
      \<and> \<not> truthy (list_work_groups no_params)"
    by (simp add: no_params_def truthy_def)
  then have m: "(truthy (list_databases no_params)
            \<and> ?req = \<lparr>operation = ''list_databases'', kwargs = [(''CatalogName'', name no_params)]\<rparr>
            \<and> ''DataCatalogsSummary'' = ''DatabaseList'')
       \<or> (truthy (list_database_tables no_params)
            \<and> ?req = \<lparr>operation = ''list_table_metadata'',
                      kwargs = [(''CatalogName'', name no_params),
                                (''DatabaseName'', database_name no_params)]\<rparr>
            \<and> ''DataCatalogsSummary'' = ''TableMetadataList'')
       \<or> (\<not> truthy (list_databases no_params) \<and> \<not> truthy (list_database_tables no_params)
            \<and> \<not> truthy (list_work_groups no_params)
            \<and> ?req = \<lparr>operation = ''list_data_catalogs'', kwargs = []\<rparr>
            \<and> ''DataCatalogsSummary'' = ''DataCatalogsSummary'')"
    by simp
  have r: "page_replies ?c ?req = map Inr [catalog_page] @ Inl ?e # []"
    by (simp add: fixed_client_def)
  have g: "list_all (good_response ''DataCatalogsSummary'') [catalog_page]" by code_simp
  from page_fetch_error_escapes [OF v m r g] v f r g show ?thesis by simp
qed

section \<open>A flag set to false\<close>

text \<open>
  C9. When validation passes, a mode flag that is explicitly false is treated like a flag
  that is not set: the run without the flag passes validation too and ends in the same way
  after the same requests.
\<close>

theorem false_flag_is_unset_flag:
  assumes "AnsibleAWSModule required_if mutually_exclusive p = Inr p"
  shows "(list_databases p = Some False \<longrightarrow>
            AnsibleAWSModule required_if mutually_exclusive (p\<lparr>list_databases := None\<rparr>)
              = Inr (p\<lparr>list_databases := None\<rparr>)
            \<and> main client p = main client (p\<lparr>list_databases := None\<rparr>))
       \<and> (list_database_tables p = Some False \<longrightarrow>
            AnsibleAWSModule required_if mutually_exclusive (p\<lparr>list_database_tables := None\<rparr>)
              = Inr (p\<lparr>list_database_tables := None\<rparr>)
            \<and> main client p = main client (p\<lparr>list_database_tables := None\<rparr>))
       \<and> (list_work_groups p = Some False \<longrightarrow>
            AnsibleAWSModule required_if mutually_exclusive (p\<lparr>list_work_groups := None\<rparr>)
              = Inr (p\<lparr>list_work_groups := None\<rparr>)
            \<and> main client p = main client (p\<lparr>list_work_groups := None\<rparr>))"
proof (intro conjI impI)
  assume f: "list_databases p = Some False"
  from assms f show v: "AnsibleAWSModule required_if mutually_exclusive (p\<lparr>list_databases := None\<rparr>)
              = Inr (p\<lparr>list_databases := None\<rparr>)"
    unfolding valid_iff check_mutually_exclusive_main check_required_if_main
    by (auto simp: supplied_def split: if_splits)
  from f show "main client p = main client (p\<lparr>list_databases := None\<rparr>)"
    by (intro main_cong [OF assms v]) (simp_all add: truthy_def athena_try_def)
next
  assume f: "list_database_tables p = Some False"
  from assms f show v: "AnsibleAWSModule required_if mutually_exclusive (p\<lparr>list_database_tables := None\<rparr>)
              = Inr (p\<lparr>list_database_tables := None\<rparr>)"
    unfolding valid_iff check_mutually_exclusive_main check_required_if_main
    by (auto simp: supplied_def split: if_splits)
  from f show "main client p = main client (p\<lparr>list_database_tables := None\<rparr>)"
    by (intro main_cong [OF assms v]) (simp_all add: truthy_def athena_try_def)
next
  assume f: "list_work_groups p = Some False"
  from assms f show v: "AnsibleAWSModule required_if mutually_exclusive (p\<lparr>list_work_groups := None\<rparr>)
              = Inr (p\<lparr>list_work_groups := None\<rparr>)"
    unfolding valid_iff check_mutually_exclusive_main check_required_if_main
    by (auto simp: supplied_def split: if_splits)
  from f show "main client p = main client (p\<lparr>list_work_groups := None\<rparr>)"
    by (intro main_cong [OF assms v]) (simp_all add: truthy_def athena_try_def)
qed

text \<open>Each flag alone set to false gives the run without parameters; for \<open>list_databases=false\<close>, the catalog listing.\<close>

theorem false_flag_is_unset_flag_witness:
  "AnsibleAWSModule required_if mutually_exclusive (no_params\<lparr>list_databases := Some False\<rparr>)
     = Inr (no_params\<lparr>list_databases := Some False\<rparr>)
   \<and> list_databases (no_params\<lparr>list_databases := Some False\<rparr>) = Some False
   \<and> main (fixed_client True [Inr catalog_page] (Inr [])) (no_params\<lparr>list_databases := Some False\<rparr>)
     = main (fixed_client True [Inr catalog_page] (Inr [])) no_params
   \<and> main (fixed_client True [Inr catalog_page] (Inr [])) (no_params\<lparr>list_databases := Some False\<rparr>)
     = (Exit_json ''catalogs'' [PDict [(''catalog_name'', PStr ''AwsDataCatalog''), (''type'', PStr ''GLUE'')]],
        [\<lparr>operation = ''list_data_catalogs'', kwargs = []\<rparr>])
   \<and> AnsibleAWSModule required_if mutually_exclusive (no_params\<lparr>list_database_tables := Some False\<rparr>)
     = Inr (no_params\<lparr>list_database_tables := Some False\<rparr>)
   \<and> list_database_tables (no_params\<lparr>list_database_tables := Some False\<rparr>) = Some False
   \<and> main (fixed_client True [Inr catalog_page] (Inr [])) (no_params\<lparr>list_database_tables := Some False\<rparr>)
     = main (fixed_client True [Inr catalog_page] (Inr [])) no_params
   \<and> AnsibleAWSModule required_if mutually_exclusive (no_params\<lparr>list_work_groups := Some False\<rparr>)
     = Inr (no_params\<lparr>list_work_groups := Some False\<rparr>)
   \<and> list_work_groups (no_params\<lparr>list_work_groups := Some False\<rparr>) = Some False
   \<and> main (fixed_client True [Inr catalog_page] (Inr [])) (no_params\<lparr>list_work_groups := Some False\<rparr>)
     = main (fixed_client True [Inr catalog_page] (Inr [])) no_params"
proof -
  let ?c = "fixed_client True [Inr catalog_page] (Inr [])"
  let ?p1 = "no_params\<lparr>list_databases := Some False\<rparr>"
  let ?p2 = "no_params\<lparr>list_database_tables := Some False\<rparr>"
  let ?p3 = "no_params\<lparr>list_work_groups := Some False\<rparr>"
  have v1: "AnsibleAWSModule required_if mutually_exclusive ?p1 = Inr ?p1" by code_simp
  have v2: "AnsibleAWSModule required_if mutually_exclusive ?p2 = Inr ?p2" by code_simp
  have v3: "AnsibleAWSModule required_if mutually_exclusive ?p3 = Inr ?p3" by code_simp
  have f1: "list_databases ?p1 = Some False" by (simp add: no_params_def)
  have f2: "list_database_tables ?p2 = Some False" by (simp add: no_params_def)
  have f3: "list_work_groups ?p3 = Some False" by (simp add: no_params_def)
  have u1: "?p1\<lparr>list_databases := None\<rparr> = no_params" by (simp add: no_params_def)
  have u2: "?p2\<lparr>list_database_tables := None\<rparr> = no_params" by (simp add: no_params_def)
  have u3: "?p3\<lparr>list_work_groups := None\<rparr> = no_params" by (simp add: no_params_def)
  have e: "main ?c no_params
     = (Exit_json ''catalogs'' [PDict [(''catalog_name'', PStr ''AwsDataCatalog''), (''type'', PStr ''GLUE'')]],
        [\<lparr>operation = ''list_data_catalogs'', kwargs = []\<rparr>])"
    by code_simp
  from false_flag_is_unset_flag [OF v1, of ?c] f1 u1
  have m1: "main ?c ?p1 = main ?c no_params" by simp
  from false_flag_is_unset_flag [OF v2, of ?c] f2 u2
  have m2: "main ?c ?p2 = main ?c no_params" by simp
  from false_flag_is_unset_flag [OF v3, of ?c] f3 u3
  have m3: "main ?c ?p3 = main ?c no_params" by simp
  from v1 v2 v3 f1 f2 f3 m1 m2 m3 e show ?thesis by simp
qed

section \<open>The database name outside the table listing\<close>

text \<open>
  C10. When \<open>list_database_tables\<close> is not true and \<open>list_work_groups\<close> is not set, two runs
  that differ only in \<open>database_name\<close> pass or fail validation alike, send the same requests
  and end in the same way.
\<close>

theorem database_name_without_effect:
  assumes "list_database_tables p \<noteq> Some True" and "list_work_groups p = None"
  shows "isl (AnsibleAWSModule required_if mutually_exclusive (p\<lparr>database_name := d1\<rparr>))
           = isl (AnsibleAWSModule required_if mutually_exclusive (p\<lparr>database_name := d2\<rparr>))
       \<and> main client (p\<lparr>database_name := d1\<rparr>) = main client (p\<lparr>database_name := d2\<rparr>)"
proof -
  let ?p1 = "p\<lparr>database_name := d1\<rparr>" and ?p2 = "p\<lparr>database_name := d2\<rparr>"
  have me: "check_mutually_exclusive mutually_exclusive ?p1 = check_mutually_exclusive mutually_exclusive ?p2"
    and ri: "check_required_if required_if ?p1 = check_required_if required_if ?p2"
    by (simp_all add: validation_database_name [OF assms])
  have tr: "athena_try client ?p1 [] = athena_try client ?p2 []"
    using assms by (simp add: athena_try_def truthy_def)
  show ?thesis
  proof (cases "AnsibleAWSModule required_if mutually_exclusive ?p1")
    case (Inl err)
    with me ri have "AnsibleAWSModule required_if mutually_exclusive ?p2 = Inl err"
      by (auto simp: AnsibleAWSModule_def split: list.splits)
    with Inl show ?thesis by (simp add: main_def)
  next
    case (Inr q)
    then have v1: "AnsibleAWSModule required_if mutually_exclusive ?p1 = Inr ?p1"
      by (simp add: valid_iff)
    with me ri have v2: "AnsibleAWSModule required_if mutually_exclusive ?p2 = Inr ?p2"
      by (simp add: valid_iff)
    have "main client ?p1 = main client ?p2"
      by (rule main_cong [OF v1 v2]) (simp_all add: tr)
    with v1 v2 show ?thesis by simp
  qed
qed

text \<open>The database listing of the second scenario of the specification, without and with a database name.\<close>

theorem database_name_without_effect_witness:
  "list_database_tables (no_params\<lparr>name := Some ''AwsDataCatalog'', list_databases := Some True\<rparr>)
     \<noteq> Some True
   \<and> list_work_groups (no_params\<lparr>name := Some ''AwsDataCatalog'', list_databases := Some True\<rparr>) = None
   \<and> isl (AnsibleAWSModule required_if mutually_exclusive
            (no_params\<lparr>name := Some ''AwsDataCatalog'', list_databases := Some True,
                       database_name := None\<rparr>))
     = isl (AnsibleAWSModule required_if mutually_exclusive
            (no_params\<lparr>name := Some ''AwsDataCatalog'', list_databases := Some True,
                       database_name := Some ''sampledb''\<rparr>))
   \<and> main (fixed_client True [Inr database_page] (Inr []))
        (no_params\<lparr>name := Some ''AwsDataCatalog'', list_databases := Some True,
                   database_name := None\<rparr>)
     = main (fixed_client True [Inr database_page] (Inr []))
        (no_params\<lparr>name := Some ''AwsDataCatalog'', list_databases := Some True,
                   database_name := Some ''sampledb''\<rparr>)
   \<and> main (fixed_client True [Inr database_page] (Inr []))
        (no_params\<lparr>name := Some ''AwsDataCatalog'', list_databases := Some True,
                   database_name := Some ''sampledb''\<rparr>)
     = (Exit_json ''databases''
          [PDict [(''name'', PStr ''sampledb''), (''description'', PStr ''Sample database'')]],
        [\<lparr>operation = ''list_databases'', kwargs = [(''CatalogName'', Some ''AwsDataCatalog'')]\<rparr>])"
proof -
  let ?c = "fixed_client True [Inr database_page] (Inr [])"
  let ?p = "no_params\<lparr>name := Some ''AwsDataCatalog'', list_databases := Some True\<rparr>"
  have h1: "list_database_tables ?p \<noteq> Some True" by (simp add: no_params_def)
  have h2: "list_work_groups ?p = None" by (simp add: no_params_def)
  have e: "main ?c (?p\<lparr>database_name := Some ''sampledb''\<rparr>)
     = (Exit_json ''databases''
          [PDict [(''name'', PStr ''sampledb''), (''description'', PStr ''Sample database'')]],
        [\<lparr>operation = ''list_databases'', kwargs = [(''CatalogName'', Some ''AwsDataCatalog'')]\<rparr>])"
    by code_simp
  from database_name_without_effect [OF h1 h2, of None "Some ''sampledb''" ?c] h1 h2 e
  show ?thesis by simp
qed

end
